theory Spec2Isabelle
  imports Complex_Main "HOL-Library.Log_Nat"
begin

section \<open>Numbers and dates of the mock pricing service\<close>

text \<open>
  The pricing and analytics logic lives in the mock API module
  (\<^verbatim>\<open>generatePricingData\<close>, \<^verbatim>\<open>generateRevenueAnalytics\<close> and the
  \<^verbatim>\<open>mockApi\<close> object).  The module is modelled twice.  The first model takes
  JavaScript numbers for exact rationals; the special values that a division by zero
  produces (\<^verbatim>\<open>NaN\<close>, \<^verbatim>\<open>Infinity\<close>, \<^verbatim>\<open>-Infinity\<close>) are kept, in the type
  \<open>jsnum\<close>, for the results of the divisions by a computed number, and signed zeros are
  not distinguished.  It serves the properties that do not depend on the rounding of
  doubles.  The second model, further down, computes in IEEE double precision: every
  literal and every arithmetic result is rounded to the nearest double, and overflows to
  an infinity.
\<close>

datatype jsnum = Fin rat | PosInf | NegInf | NaN

fun js_div :: "jsnum \<Rightarrow> jsnum \<Rightarrow> jsnum" where
  "js_div NaN y = NaN"
| "js_div x NaN = NaN"
| "js_div (Fin x) (Fin y) =
     (if y \<noteq> 0 then Fin (x / y)
      else if 0 < x then PosInf else if x < 0 then NegInf else NaN)"
| "js_div (Fin x) PosInf = Fin 0"
| "js_div (Fin x) NegInf = Fin 0"
| "js_div PosInf (Fin y) = (if 0 \<le> y then PosInf else NegInf)"
| "js_div NegInf (Fin y) = (if 0 \<le> y then NegInf else PosInf)"
| "js_div PosInf PosInf = NaN"
| "js_div PosInf NegInf = NaN"
| "js_div NegInf PosInf = NaN"
| "js_div NegInf NegInf = NaN"

fun js_mul :: "jsnum \<Rightarrow> jsnum \<Rightarrow> jsnum" where
  "js_mul NaN y = NaN"
| "js_mul x NaN = NaN"
| "js_mul (Fin x) (Fin y) = Fin (x * y)"
| "js_mul (Fin x) PosInf = (if 0 < x then PosInf else if x < 0 then NegInf else NaN)"
| "js_mul (Fin x) NegInf = (if 0 < x then NegInf else if x < 0 then PosInf else NaN)"
| "js_mul PosInf (Fin y) = (if 0 < y then PosInf else if y < 0 then NegInf else NaN)"
| "js_mul NegInf (Fin y) = (if 0 < y then NegInf else if y < 0 then PosInf else NaN)"
| "js_mul PosInf PosInf = PosInf"
| "js_mul PosInf NegInf = NegInf"
| "js_mul NegInf PosInf = NegInf"
| "js_mul NegInf NegInf = PosInf"

text \<open>\<^verbatim>\<open>Math.round(x)\<close>: the nearest integer, a tie going up, which is \<open>\<lfloor>x + 1/2\<rfloor>\<close>.\<close>

definition Math_round :: "rat \<Rightarrow> int" where
  "Math_round x = \<lfloor>x + 1 / 2\<rfloor>"

fun js_round :: "jsnum \<Rightarrow> jsnum" where
  "js_round (Fin x) = Fin (of_int (Math_round x))"
| "js_round PosInf = PosInf"
| "js_round NegInf = NegInf"
| "js_round NaN = NaN"

fun is_finite :: "jsnum \<Rightarrow> bool" where
  "is_finite (Fin x) = True"
| "is_finite PosInf = False"
| "is_finite NegInf = False"
| "is_finite NaN = False"

text \<open>\<^verbatim>\<open>Math.round(x * 100) / 100\<close> and \<^verbatim>\<open>Math.round(x * 10000) / 10000\<close>.\<close>

definition round2 :: "rat \<Rightarrow> rat" where
  "round2 x = of_int (Math_round (x * 100)) / 100"

definition js_round2 :: "jsnum \<Rightarrow> jsnum" where
  "js_round2 x = js_div (js_round (js_mul x (Fin 100))) (Fin 100)"

definition js_round4 :: "jsnum \<Rightarrow> jsnum" where
  "js_round4 x = js_div (js_round (js_mul x (Fin 10000))) (Fin 10000)"

text \<open>
  \<^verbatim>\<open>Math.random()\<close> is ambient state: the \<open>n\<close>-th call of a run returns \<open>rnd n\<close>, and
  every function that draws takes the number of calls made so far and returns the new
  count.  A draw lies in \<open>[0, 1)\<close>.
\<close>

type_synonym rng = "nat \<Rightarrow> rat"

text \<open>
  A \<^verbatim>\<open>Date\<close> is modelled by its day number (days since 1970-01-01), the local zone
  taken to be UTC, so that the local day and the day of \<^verbatim>\<open>toISOString().split('T')[0]\<close>
  are the same number.
  \<^verbatim>\<open>getDay\<close> is the day of the week (0 is Sunday), \<^verbatim>\<open>getDate\<close> the day of the month
  of the proleptic Gregorian calendar, and \<^verbatim>\<open>setDate(n)\<close> moves within the month's
  numbering, also below 1 and past the month's end.
\<close>

definition getDay :: "int \<Rightarrow> int" where
  "getDay d = (d + 4) mod 7"

definition getDate :: "int \<Rightarrow> int" where
  "getDate d =
     (let doe = (d + 719468) mod 146097;
          yoe = (doe - doe div 1460 + doe div 36524 - doe div 146096) div 365;
          doy = doe - (365 * yoe + yoe div 4 - yoe div 100);
          mp = (5 * doy + 2) div 153
      in doy - (153 * mp + 2) div 5 + 1)"

definition setDate :: "int \<Rightarrow> int \<Rightarrow> int" where
  "setDate d n = d - getDate d + n"

section \<open>Room types\<close>

record room_type =
  rt_id :: nat
  hotel_id :: nat
  name :: string
  base_price :: rat
  variable_cost :: rat
  inventory_count :: int

text \<open>The module's table \<^verbatim>\<open>roomTypes\<close> (the fields that the computations read).\<close>

definition roomTypes :: "room_type list" where
  "roomTypes =
    [\<lparr>rt_id = 1, hotel_id = 1, name = ''Standard Room'', base_price = 199,
       variable_cost = 45, inventory_count = 40\<rparr>,
     \<lparr>rt_id = 2, hotel_id = 1, name = ''Deluxe Room'', base_price = 299,
       variable_cost = 65, inventory_count = 30\<rparr>,
     \<lparr>rt_id = 3, hotel_id = 1, name = ''Executive Suite'', base_price = 499,
       variable_cost = 95, inventory_count = 15\<rparr>,
     \<lparr>rt_id = 4, hotel_id = 2, name = ''Standard Room'', base_price = 149,
       variable_cost = 35, inventory_count = 50\<rparr>,
     \<lparr>rt_id = 5, hotel_id = 2, name = ''Deluxe Room'', base_price = 229,
       variable_cost = 55, inventory_count = 35\<rparr>,
     \<lparr>rt_id = 6, hotel_id = 3, name = ''Standard Room'', base_price = 169,
       variable_cost = 40, inventory_count = 45\<rparr>,
     \<lparr>rt_id = 7, hotel_id = 3, name = ''Executive Room'', base_price = 249,
       variable_cost = 60, inventory_count = 30\<rparr>]"

section \<open>Pricing: \<^verbatim>\<open>generatePricingData\<close>\<close>

record priced_day =
  date :: int
  room_type_id :: nat
  room_type_name :: string
  pd_base_price :: rat
  pd_variable_cost :: rat
  demand_probability :: rat
  price_multiplier :: rat
  suggested_price :: rat
  final_price :: rat
  is_override :: bool
  override_notes :: "string option"
  contribution_margin :: rat
  contribution_margin_percentage :: jsnum
  expected_occupancy :: rat
  expected_bookings :: rat
  expected_revenue :: rat
  expected_contribution :: rat

text \<open>The local \<^verbatim>\<open>priceMultiplier\<close> of the loop body, as a function of \<^verbatim>\<open>demand\<close>.\<close>

definition priceMultiplier :: "rat \<Rightarrow> rat" where
  "priceMultiplier demand =
     (if demand \<le> 3 / 10 then 6 / 10 + (demand / (3 / 10)) * (4 / 10)
      else if demand \<ge> 7 / 10 then 1 + ((demand - 7 / 10) / (3 / 10)) * 1
      else 1)"

text \<open>
  The body of the loop of \<^verbatim>\<open>generatePricingData\<close> after \<^verbatim>\<open>demand\<close> has been drawn:
  \<open>r_override\<close>, \<open>r_adjust\<close> and \<open>r_occupancy\<close> are the values of the later calls of
  \<^verbatim>\<open>Math.random()\<close> (the second is drawn, and read, only when there is an override).
\<close>

definition priceDay ::
  "room_type \<Rightarrow> int \<Rightarrow> rat \<Rightarrow> rat \<Rightarrow> rat \<Rightarrow> rat \<Rightarrow> priced_day" where
  "priceDay roomType day demand r_override r_adjust r_occupancy =
     (let suggestedPrice = of_int (Math_round (base_price roomType * priceMultiplier demand * 100)) / 100;
          isOverride = (r_override < 1 / 10);
          adjustment = - (1 / 10) + r_adjust * (25 / 100);
          finalPrice = (if isOverride
                        then of_int (Math_round (suggestedPrice * (1 + adjustment) * 100)) / 100
                        else suggestedPrice);
          overrideNotes = (if isOverride then Some ''Manual adjustment for market conditions''
                           else None);
          occupancy = min (95 / 100) (max (1 / 10) (demand * (8 / 10 + r_occupancy * (4 / 10))));
          contributionMargin = finalPrice - variable_cost roomType;
          contributionMarginPercentage =
            js_mul (js_div (Fin contributionMargin) (Fin finalPrice)) (Fin 100);
          expectedBookings =
            of_int (Math_round (occupancy * of_int (inventory_count roomType) * 10)) / 10;
          expectedRevenue = expectedBookings * finalPrice;
          expectedContribution = expectedBookings * contributionMargin
      in \<lparr>date = day,
          room_type_id = rt_id roomType,
          room_type_name = name roomType,
          pd_base_price = base_price roomType,
          pd_variable_cost = variable_cost roomType,
          demand_probability = round2 demand,
          price_multiplier = round2 (priceMultiplier demand),
          suggested_price = suggestedPrice,
          final_price = finalPrice,
          is_override = isOverride,
          override_notes = overrideNotes,
          contribution_margin = round2 contributionMargin,
          contribution_margin_percentage = js_round2 contributionMarginPercentage,
          expected_occupancy = round2 occupancy,
          expected_bookings = expectedBookings,
          expected_revenue = round2 expectedRevenue,
          expected_contribution = round2 expectedContribution\<rparr>)"

text \<open>
  One iteration of the loop: the draws in the order of the source (demand, override,
  adjustment only on an override, occupancy), from call number \<open>pos\<close> on.
\<close>

definition pricing_iteration :: "room_type \<Rightarrow> int \<Rightarrow> rng \<Rightarrow> nat \<Rightarrow> priced_day \<times> nat" where
  "pricing_iteration roomType day rnd pos =
     (let demand = 2 / 10 + rnd pos * (7 / 10);
          r_override = rnd (pos + 1)
      in if r_override < 1 / 10
         then (priceDay roomType day demand r_override (rnd (pos + 2)) (rnd (pos + 3)), pos + 4)
         else (priceDay roomType day demand r_override 0 (rnd (pos + 2)), pos + 3))"

text \<open>The loop \<^verbatim>\<open>for (let i = 0; i < 30; i++)\<close>, entered at \<open>i\<close> with \<open>k\<close> iterations left.\<close>

fun pricing_loop ::
  "room_type \<Rightarrow> int \<Rightarrow> rng \<Rightarrow> nat \<Rightarrow> nat \<Rightarrow> nat \<Rightarrow> priced_day list \<times> nat" where
  "pricing_loop roomType startDate rnd i 0 pos = ([], pos)"
| "pricing_loop roomType startDate rnd i (Suc k) pos =
     (let (p, pos') = pricing_iteration roomType (startDate + int i) rnd pos;
          (ps, pos'') = pricing_loop roomType startDate rnd (Suc i) k pos'
      in (p # ps, pos''))"

definition generatePricingData ::
  "room_type list \<Rightarrow> nat \<Rightarrow> int \<Rightarrow> rng \<Rightarrow> nat \<Rightarrow> priced_day list \<times> nat" where
  "generatePricingData table roomTypeId startDate rnd pos =
     (case find (\<lambda>rt. rt_id rt = roomTypeId) table of
        None \<Rightarrow> ([], pos)
      | Some roomType \<Rightarrow> pricing_loop roomType startDate rnd 0 30 pos)"

section \<open>Objects keyed by room-type id, and errors\<close>

text \<open>
  An object whose keys are room-type ids (\<^verbatim>\<open>recommendations\<close>, \<^verbatim>\<open>roomTypeBreakdown\<close>):
  JavaScript enumerates integer keys in ascending order whatever the order of insertion,
  and an assignment to an existing key replaces its value.
\<close>

fun obj_set :: "nat \<Rightarrow> 'v \<Rightarrow> (nat \<times> 'v) list \<Rightarrow> (nat \<times> 'v) list" where
  "obj_set k v [] = [(k, v)]"
| "obj_set k v ((k', v') # kvs) =
     (if k < k' then (k, v) # (k', v') # kvs
      else if k = k' then (k, v) # kvs
      else (k', v') # obj_set k v kvs)"

definition Object_values :: "(nat \<times> 'v) list \<Rightarrow> 'v list" where
  "Object_values obj = map snd obj"

text \<open>
  What the module can throw: its own \<^verbatim>\<open>Error\<close>, the \<^verbatim>\<open>TypeError\<close> of reading
  a property of \<^verbatim>\<open>undefined\<close>, and the \<^verbatim>\<open>RangeError\<close> of \<^verbatim>\<open>toISOString\<close> on
  an invalid date.
\<close>

datatype js_error = Error string | TypeError | RangeError

section \<open>Pricing recommendations: \<^verbatim>\<open>getPricingRecommendations\<close>\<close>

record recommendation =
  rec_room_type_id :: nat
  rec_room_type_name :: string
  rec_base_price :: rat
  rec_variable_cost :: rat
  rec_inventory_count :: int
  prices :: "priced_day list"

text \<open>The response; \<^verbatim>\<open>generated_at\<close>, the wall-clock time of the call, is left out.\<close>

record pricing_response =
  pr_hotel_id :: nat
  pr_start_date :: int
  pr_days :: int
  recommendations :: "(nat \<times> recommendation) list"

text \<open>One call of the \<^verbatim>\<open>forEach\<close> callback, on the object built so far.\<close>

definition recommend_room_type ::
  "room_type list \<Rightarrow> int \<Rightarrow> rng \<Rightarrow> room_type \<Rightarrow>
   (nat \<times> recommendation) list \<times> nat \<Rightarrow> (nat \<times> recommendation) list \<times> nat" where
  "recommend_room_type table startDate rnd roomType st =
     (let (pricingData, pos') = generatePricingData table (rt_id roomType) startDate rnd (snd st)
      in (obj_set (rt_id roomType)
            \<lparr>rec_room_type_id = rt_id roomType,
             rec_room_type_name = name roomType,
             rec_base_price = base_price roomType,
             rec_variable_cost = variable_cost roomType,
             rec_inventory_count = inventory_count roomType,
             prices = pricingData\<rparr> (fst st), pos'))"

text \<open>
  \<^verbatim>\<open>roomTypeId\<close> is \<^verbatim>\<open>null\<close> (\<open>None\<close>) or a number; the test \<^verbatim>\<open>roomTypeId ? ... : ...\<close>
  takes 0 for absent as well.
\<close>

definition getPricingRecommendations ::
  "room_type list \<Rightarrow> nat \<Rightarrow> int \<Rightarrow> int \<Rightarrow> nat option \<Rightarrow> rng \<Rightarrow> nat \<Rightarrow>
   js_error + (pricing_response \<times> nat)" where
  "getPricingRecommendations table hotelId startDate days roomTypeId rnd pos =
     (let hotelRoomTypes =
            (case roomTypeId of
               None \<Rightarrow> filter (\<lambda>rt. hotel_id rt = hotelId) table
             | Some r \<Rightarrow>
                 if r \<noteq> 0 then filter (\<lambda>rt. rt_id rt = r \<and> hotel_id rt = hotelId) table
                 else filter (\<lambda>rt. hotel_id rt = hotelId) table)
      in if length hotelRoomTypes = 0
         then Inl (Error ''No room types found for the specified criteria'')
         else
           (let (recs, pos') =
                  fold (recommend_room_type table startDate rnd) hotelRoomTypes ([], pos)
            in Inr (\<lparr>pr_hotel_id = hotelId, pr_start_date = startDate, pr_days = days,
                      recommendations = recs\<rparr>, pos')))"

section \<open>Analytics: \<^verbatim>\<open>generateRevenueAnalytics\<close>\<close>

record room_breakdown =
  b_room_type_id :: nat
  b_room_type_name :: string
  revenue :: rat
  rooms :: int
  occupied :: int
  occupancy_rate :: rat

record analytics_entry =
  a_date :: int
  total_revenue :: rat
  total_rooms :: int
  total_occupied :: int
  a_occupancy_rate :: jsnum
  room_types :: "room_breakdown list"

text \<open>
  The report; the early return \<^verbatim>\<open>{ analytics: [] }\<close> has none of the other properties.
  The element type is a parameter, since the occupancy and contribution reports replace
  the entries.
\<close>

record 'a report =
  r_hotel_id :: "nat option"
  r_start_date :: "int option"
  r_end_date :: "int option"
  r_group_by :: "string option"
  analytics :: "'a list"

text \<open>
  The running totals of one bucket: \<^verbatim>\<open>totalRevenue\<close>, \<^verbatim>\<open>totalRooms\<close>,
  \<^verbatim>\<open>totalOccupied\<close>, \<^verbatim>\<open>roomTypeBreakdown\<close>, and the count of random draws.
\<close>

record bucket_totals =
  totalRevenue :: rat
  totalRooms :: int
  totalOccupied :: int
  roomTypeBreakdown :: "(nat \<times> room_breakdown) list"
  draws :: nat

text \<open>The callback of \<^verbatim>\<open>hotelRoomTypes.forEach\<close>.\<close>

definition add_room_type :: "rng \<Rightarrow> room_type \<Rightarrow> bucket_totals \<Rightarrow> bucket_totals" where
  "add_room_type rnd roomType t =
     (let occupancy = 4 / 10 + rnd (draws t) * (5 / 10);
          occupiedRooms = Math_round (of_int (inventory_count roomType) * occupancy);
          avgPrice = base_price roomType * (9 / 10 + rnd (draws t + 1) * (3 / 10));
          revenue = of_int occupiedRooms * avgPrice
      in \<lparr>totalRevenue = totalRevenue t + revenue,
          totalRooms = totalRooms t + inventory_count roomType,
          totalOccupied = totalOccupied t + occupiedRooms,
          roomTypeBreakdown =
            obj_set (rt_id roomType)
              \<lparr>b_room_type_id = rt_id roomType,
               b_room_type_name = name roomType,
               revenue = round2 revenue,
               rooms = inventory_count roomType,
               occupied = occupiedRooms,
               occupancy_rate = round2 occupancy\<rparr> (roomTypeBreakdown t),
          draws = draws t + 2\<rparr>)"

text \<open>The data generated for one group date, and the entry pushed for it.\<close>

definition new_entry :: "room_type list \<Rightarrow> int \<Rightarrow> rng \<Rightarrow> nat \<Rightarrow> analytics_entry \<times> nat" where
  "new_entry hotelRoomTypes groupDate rnd pos =
     (let t = fold (add_room_type rnd) hotelRoomTypes
                \<lparr>totalRevenue = 0, totalRooms = 0, totalOccupied = 0,
                 roomTypeBreakdown = [], draws = pos\<rparr>;
          overallOccupancy = js_div (Fin (of_int (totalOccupied t))) (Fin (of_int (totalRooms t)))
      in (\<lparr>a_date = groupDate,
           total_revenue = round2 (totalRevenue t),
           total_rooms = totalRooms t,
           total_occupied = totalOccupied t,
           a_occupancy_rate = js_round4 overallOccupancy,
           room_types = Object_values (roomTypeBreakdown t)\<rparr>, draws t))"

text \<open>The group date of a day: the Monday of its week, the first of its month, or itself.\<close>

definition group_date :: "string \<Rightarrow> int \<Rightarrow> int" where
  "group_date groupBy d =
     (if groupBy = ''week''
      then (let day = getDay d;
                diff = getDate d - day + (if day = 0 then - 6 else 1)
            in setDate d diff)
      else if groupBy = ''month'' then setDate d 1
      else d)"

text \<open>
  The loop \<^verbatim>\<open>for (let i = 0; i < days; i++)\<close>, entered at \<open>i\<close> with \<open>k\<close> iterations
  left, on the array \<^verbatim>\<open>analytics\<close> built so far.  A day whose group date already has an
  entry is passed over by \<^verbatim>\<open>continue\<close>.
\<close>

fun analytics_loop ::
  "room_type list \<Rightarrow> int \<Rightarrow> string \<Rightarrow> rng \<Rightarrow> nat \<Rightarrow> nat \<Rightarrow>
   analytics_entry list \<times> nat \<Rightarrow> analytics_entry list \<times> nat" where
  "analytics_loop hotelRoomTypes startDate groupBy rnd i 0 st = st"
| "analytics_loop hotelRoomTypes startDate groupBy rnd i (Suc k) st =
     (let groupDate = group_date groupBy (startDate + int i)
      in case find (\<lambda>a. a_date a = groupDate) (fst st) of
           Some a \<Rightarrow> analytics_loop hotelRoomTypes startDate groupBy rnd (Suc i) k st
         | None \<Rightarrow>
             (let (e, pos') = new_entry hotelRoomTypes groupDate rnd (snd st)
              in analytics_loop hotelRoomTypes startDate groupBy rnd (Suc i) k
                   (fst st @ [e], pos')))"

definition generateRevenueAnalytics ::
  "room_type list \<Rightarrow> nat \<Rightarrow> int \<Rightarrow> int \<Rightarrow> string \<Rightarrow> rng \<Rightarrow> nat \<Rightarrow>
   analytics_entry report \<times> nat" where
  "generateRevenueAnalytics table hotelId startDate days groupBy rnd pos =
     (let hotelRoomTypes = filter (\<lambda>rt. hotel_id rt = hotelId) table
      in if length hotelRoomTypes = 0
         then (\<lparr>r_hotel_id = None, r_start_date = None, r_end_date = None,
                 r_group_by = None, analytics = []\<rparr>, pos)
         else
           (let (entries, pos') =
                  analytics_loop hotelRoomTypes startDate groupBy rnd 0 (nat days) ([], pos)
            in (\<lparr>r_hotel_id = Some hotelId,
                  r_start_date = Some startDate,
                  r_end_date = Some (startDate + days - 1),
                  r_group_by = Some groupBy,
                  analytics = sort_key a_date entries\<rparr>, pos')))"

text \<open>
  \<^verbatim>\<open>getRevenueAnalytics\<close>: the number of days up to \<^verbatim>\<open>endDate\<close>, or 30 without one.
  The parameter \<^verbatim>\<open>roomTypeId\<close> is not read.
\<close>

definition getRevenueAnalytics ::
  "room_type list \<Rightarrow> nat \<Rightarrow> int \<Rightarrow> int option \<Rightarrow> string \<Rightarrow> rng \<Rightarrow> nat \<Rightarrow>
   analytics_entry report \<times> nat" where
  "getRevenueAnalytics table hotelId startDate endDate groupBy rnd pos =
     (let days = (case endDate of Some e \<Rightarrow> e - startDate | None \<Rightarrow> 30)
      in generateRevenueAnalytics table hotelId startDate days groupBy rnd pos)"

section \<open>Contribution margins: \<^verbatim>\<open>getContributionMarginAnalytics\<close>\<close>

record contribution_breakdown = room_breakdown +
  cb_variable_cost :: rat
  contribution :: rat
  cb_contribution_margin :: jsnum

record contribution_entry =
  c_date :: int
  c_total_revenue :: rat
  total_variable_cost :: rat
  total_contribution :: rat
  c_contribution_margin :: jsnum
  c_total_rooms :: int
  c_total_occupied :: int
  c_room_types :: "contribution_breakdown list"

text \<open>
  The inner \<^verbatim>\<open>item.room_types.map\<close> with its two accumulators
  \<^verbatim>\<open>totalVariableCost\<close> and \<^verbatim>\<open>totalContribution\<close>.  A breakdown whose room type is
  not among \<^verbatim>\<open>hotelRoomTypes\<close> makes \<^verbatim>\<open>roomType.variable_cost\<close> throw.
\<close>

fun with_contribution ::
  "room_type list \<Rightarrow> room_breakdown list \<Rightarrow> rat \<times> rat \<Rightarrow>
   js_error + (contribution_breakdown list \<times> rat \<times> rat)" where
  "with_contribution hotelRoomTypes [] (totalVariableCost, totalContribution) =
     Inr ([], totalVariableCost, totalContribution)"
| "with_contribution hotelRoomTypes (rt # rts) (totalVariableCost, totalContribution) =
     (case find (\<lambda>r. rt_id r = b_room_type_id rt) hotelRoomTypes of
        None \<Rightarrow> Inl TypeError
      | Some roomType \<Rightarrow>
          (let variableCost = of_int (occupied rt) * variable_cost roomType;
               contribution = revenue rt - variableCost
           in case with_contribution hotelRoomTypes rts
                     (totalVariableCost + variableCost, totalContribution + contribution) of
                Inl e \<Rightarrow> Inl e
              | Inr (out, tv, tc) \<Rightarrow>
                  Inr (room_breakdown.extend rt
                         \<lparr>cb_variable_cost = round2 variableCost,
                          contribution = round2 contribution,
                          cb_contribution_margin =
                            js_round4 (js_div (Fin contribution) (Fin (revenue rt)))\<rparr>
                       # out, tv, tc)))"

text \<open>The callback of \<^verbatim>\<open>revenueData.analytics.map\<close>.\<close>

definition contribution_item ::
  "room_type list \<Rightarrow> analytics_entry \<Rightarrow> js_error + contribution_entry" where
  "contribution_item hotelRoomTypes item =
     (case with_contribution hotelRoomTypes (room_types item) (0, 0) of
        Inl e \<Rightarrow> Inl e
      | Inr (roomTypesWithContribution, totalVariableCost, totalContribution) \<Rightarrow>
          (let overallContributionMargin =
                 js_div (Fin totalContribution) (Fin (total_revenue item))
           in Inr \<lparr>c_date = a_date item,
                   c_total_revenue = total_revenue item,
                   total_variable_cost = round2 totalVariableCost,
                   total_contribution = round2 totalContribution,
                   c_contribution_margin = js_round4 overallContributionMargin,
                   c_total_rooms = total_rooms item,
                   c_total_occupied = total_occupied item,
                   c_room_types = roomTypesWithContribution\<rparr>))"

fun map_items ::
  "room_type list \<Rightarrow> analytics_entry list \<Rightarrow> js_error + contribution_entry list" where
  "map_items hotelRoomTypes [] = Inr []"
| "map_items hotelRoomTypes (item # items) =
     (case contribution_item hotelRoomTypes item of
        Inl e \<Rightarrow> Inl e
      | Inr c \<Rightarrow>
          (case map_items hotelRoomTypes items of
             Inl e \<Rightarrow> Inl e
           | Inr cs \<Rightarrow> Inr (c # cs)))"

definition getContributionMarginAnalytics ::
  "room_type list \<Rightarrow> nat \<Rightarrow> int \<Rightarrow> int option \<Rightarrow> string \<Rightarrow> rng \<Rightarrow> nat \<Rightarrow>
   js_error + (contribution_entry report \<times> nat)" where
  "getContributionMarginAnalytics table hotelId startDate endDate groupBy rnd pos =
     (let (revenueData, pos') = getRevenueAnalytics table hotelId startDate endDate groupBy rnd pos;
          hotelRoomTypes = filter (\<lambda>rt. hotel_id rt = hotelId) table
      in case map_items hotelRoomTypes (analytics revenueData) of
           Inl e \<Rightarrow> Inl e
         | Inr items \<Rightarrow>
             Inr (\<lparr>r_hotel_id = r_hotel_id revenueData,
                   r_start_date = r_start_date revenueData,
                   r_end_date = r_end_date revenueData,
                   r_group_by = r_group_by revenueData,
                   analytics = items\<rparr>, pos'))"

section \<open>The tier function of the specification\<close>


section \<open>Dates that may be invalid\<close>

text \<open>
  The functions above take the day number of a valid date.  A \<^verbatim>\<open>Date\<close> object may
  also be invalid (its time value is \<^verbatim>\<open>NaN\<close>, as for \<^verbatim>\<open>new Date("x")\<close>), and a
  time value further than 100,000,000 days from 1970-01-01 is clipped to invalid.
  \<^verbatim>\<open>getDate\<close> of an invalid date is \<^verbatim>\<open>NaN\<close>, \<^verbatim>\<open>setDate\<close> leaves it invalid, and
  \<^verbatim>\<open>toISOString\<close> throws a \<^verbatim>\<open>RangeError\<close> on it.
\<close>

datatype js_date = Date int | Invalid_Date

definition make_date :: "int \<Rightarrow> js_date" where
  "make_date n = (if - 100000000 \<le> n \<and> n \<le> 100000000 then Date n else Invalid_Date)"

text \<open>\<^verbatim>\<open>const date = new Date(startDate); date.setDate(date.getDate() + i)\<close>.\<close>

definition add_days :: "js_date \<Rightarrow> int \<Rightarrow> js_date" where
  "add_days startDate i =
     (case startDate of Invalid_Date \<Rightarrow> Invalid_Date | Date s \<Rightarrow> make_date (s + i))"

definition toISOString :: "js_date \<Rightarrow> js_error + int" where
  "toISOString d = (case d of Invalid_Date \<Rightarrow> Inl RangeError | Date n \<Rightarrow> Inr n)"

text \<open>
  The iteration \<open>i\<close> of the loop of \<^verbatim>\<open>generatePricingData\<close> on a start date that may be
  invalid.  The only statement of the body that can throw is
  \<^verbatim>\<open>date.toISOString()\<close>, in the record that is pushed; the draws that precede it are
  lost with the exception.
\<close>

definition pricing_iteration_at ::
  "room_type \<Rightarrow> js_date \<Rightarrow> nat \<Rightarrow> rng \<Rightarrow> nat \<Rightarrow> js_error + (priced_day \<times> nat)" where
  "pricing_iteration_at roomType startDate i rnd pos =
     (case toISOString (add_days startDate (int i)) of
        Inl e \<Rightarrow> Inl e
      | Inr day \<Rightarrow> Inr (pricing_iteration roomType day rnd pos))"

fun pricing_loop_at ::
  "room_type \<Rightarrow> js_date \<Rightarrow> rng \<Rightarrow> nat \<Rightarrow> nat \<Rightarrow> nat \<Rightarrow> js_error + (priced_day list \<times> nat)" where
  "pricing_loop_at roomType startDate rnd i 0 pos = Inr ([], pos)"
| "pricing_loop_at roomType startDate rnd i (Suc k) pos =
     (case pricing_iteration_at roomType startDate i rnd pos of
        Inl e \<Rightarrow> Inl e
      | Inr (p, pos') \<Rightarrow>
          (case pricing_loop_at roomType startDate rnd (Suc i) k pos' of
             Inl e \<Rightarrow> Inl e
           | Inr (ps, pos'') \<Rightarrow> Inr (p # ps, pos'')))"

definition generatePricingData_at ::
  "room_type list \<Rightarrow> nat \<Rightarrow> js_date \<Rightarrow> rng \<Rightarrow> nat \<Rightarrow> js_error + (priced_day list \<times> nat)" where
  "generatePricingData_at table roomTypeId startDate rnd pos =
     (case find (\<lambda>rt. rt_id rt = roomTypeId) table of
        None \<Rightarrow> Inr ([], pos)
      | Some roomType \<Rightarrow> pricing_loop_at roomType startDate rnd 0 30 pos)"

section \<open>Double precision\<close>

text \<open>
  A double is a \<open>jsnum\<close> whose finite values are the rationals \<open>m * 2 ^ e\<close> with
  \<open>\<bar>m\<bar> < 2 ^ 53\<close> and \<open>- 1074 \<le> e \<le> 971\<close>.  \<open>fl x\<close> is the double nearest to the
  rational \<open>x\<close>, a tie going to the even significand (the rounding of IEEE 754 that
  JavaScript prescribes for literals and for \<^verbatim>\<open>+\<close>, \<^verbatim>\<open>-\<close>, \<^verbatim>\<open>*\<close>, \<^verbatim>\<open>/\<close>):
  \<open>double_exponent\<close> is the exponent of the last place of the magnitude, not below that
  of the subnormal numbers, and a rounded magnitude of \<open>2 ^ 1024\<close> is an overflow.
  Signed zeros are not distinguished.
\<close>

definition round_half_even :: "rat \<Rightarrow> int" where
  "round_half_even r =
     (let f = \<lfloor>r\<rfloor>; d = r - of_int f
      in if d < 1 / 2 then f else if 1 / 2 < d then f + 1 else if even f then f else f + 1)"

definition double_exponent :: "rat \<Rightarrow> int" where
  "double_exponent a =
     (let (p, q) = quotient_of a;
          e0 = bitlen p - bitlen q - 53
      in max (if 2 powi (e0 + 53) \<le> a then e0 + 1 else e0) (- 1074))"

definition fl :: "rat \<Rightarrow> jsnum" where
  "fl x =
     (let a = \<bar>x\<bar>;
          e = double_exponent a;
          v = of_int (round_half_even (a / 2 powi e)) * 2 powi e
      in if 2 ^ 1024 \<le> v then (if 0 < x then PosInf else NegInf)
         else Fin (if 0 < x then v else - v))"

fun d_neg :: "jsnum \<Rightarrow> jsnum" where
  "d_neg (Fin x) = Fin (- x)"
| "d_neg PosInf = NegInf"
| "d_neg NegInf = PosInf"
| "d_neg NaN = NaN"

fun d_add :: "jsnum \<Rightarrow> jsnum \<Rightarrow> jsnum" where
  "d_add NaN y = NaN"
| "d_add x NaN = NaN"
| "d_add (Fin x) (Fin y) = fl (x + y)"
| "d_add (Fin x) PosInf = PosInf"
| "d_add (Fin x) NegInf = NegInf"
| "d_add PosInf (Fin y) = PosInf"
| "d_add NegInf (Fin y) = NegInf"
| "d_add PosInf PosInf = PosInf"
| "d_add PosInf NegInf = NaN"
| "d_add NegInf PosInf = NaN"
| "d_add NegInf NegInf = NegInf"

definition d_sub :: "jsnum \<Rightarrow> jsnum \<Rightarrow> jsnum" where
  "d_sub x y = d_add x (d_neg y)"

fun d_mul :: "jsnum \<Rightarrow> jsnum \<Rightarrow> jsnum" where
  "d_mul NaN y = NaN"
| "d_mul x NaN = NaN"
| "d_mul (Fin x) (Fin y) = fl (x * y)"
| "d_mul (Fin x) PosInf = (if 0 < x then PosInf else if x < 0 then NegInf else NaN)"
| "d_mul (Fin x) NegInf = (if 0 < x then NegInf else if x < 0 then PosInf else NaN)"
| "d_mul PosInf (Fin y) = (if 0 < y then PosInf else if y < 0 then NegInf else NaN)"
| "d_mul NegInf (Fin y) = (if 0 < y then NegInf else if y < 0 then PosInf else NaN)"
| "d_mul PosInf PosInf = PosInf"
| "d_mul PosInf NegInf = NegInf"
| "d_mul NegInf PosInf = NegInf"
| "d_mul NegInf NegInf = PosInf"

fun d_div :: "jsnum \<Rightarrow> jsnum \<Rightarrow> jsnum" where
  "d_div NaN y = NaN"
| "d_div x NaN = NaN"
| "d_div (Fin x) (Fin y) =
     (if y \<noteq> 0 then fl (x / y)
      else if 0 < x then PosInf else if x < 0 then NegInf else NaN)"
| "d_div (Fin x) PosInf = Fin 0"
| "d_div (Fin x) NegInf = Fin 0"
| "d_div PosInf (Fin y) = (if 0 \<le> y then PosInf else NegInf)"
| "d_div NegInf (Fin y) = (if 0 \<le> y then NegInf else PosInf)"
| "d_div PosInf PosInf = NaN"
| "d_div PosInf NegInf = NaN"
| "d_div NegInf PosInf = NaN"
| "d_div NegInf NegInf = NaN"

text \<open>\<^verbatim>\<open>x <= y\<close> and \<^verbatim>\<open>x < y\<close>: false as soon as one side is \<^verbatim>\<open>NaN\<close>.\<close>

fun d_le :: "jsnum \<Rightarrow> jsnum \<Rightarrow> bool" where
  "d_le NaN y = False"
| "d_le x NaN = False"
| "d_le (Fin x) (Fin y) = (x \<le> y)"
| "d_le NegInf y = True"
| "d_le x PosInf = True"
| "d_le PosInf y = False"
| "d_le x NegInf = False"

fun d_lt :: "jsnum \<Rightarrow> jsnum \<Rightarrow> bool" where
  "d_lt NaN y = False"
| "d_lt x NaN = False"
| "d_lt (Fin x) (Fin y) = (x < y)"
| "d_lt PosInf y = False"
| "d_lt x NegInf = False"
| "d_lt NegInf y = True"
| "d_lt x PosInf = True"

text \<open>\<^verbatim>\<open>Math.min\<close> and \<^verbatim>\<open>Math.max\<close> of two numbers.\<close>

definition d_min :: "jsnum \<Rightarrow> jsnum \<Rightarrow> jsnum" where
  "d_min x y = (if x = NaN \<or> y = NaN then NaN else if d_le x y then x else y)"

definition d_max :: "jsnum \<Rightarrow> jsnum \<Rightarrow> jsnum" where
  "d_max x y = (if x = NaN \<or> y = NaN then NaN else if d_le x y then y else x)"

text \<open>
  \<^verbatim>\<open>Math.round\<close> of a double: the integer \<open>\<lfloor>x + 1/2\<rfloor>\<close> of the exact value (a double
  of magnitude \<open>2 ^ 52\<close> or more is an integer already).
\<close>

fun d_round :: "jsnum \<Rightarrow> jsnum" where
  "d_round (Fin x) = fl (of_int (Math_round x))"
| "d_round PosInf = PosInf"
| "d_round NegInf = NegInf"
| "d_round NaN = NaN"

definition d_round2 :: "jsnum \<Rightarrow> jsnum" where
  "d_round2 x = d_div (d_round (d_mul x (fl 100))) (fl 100)"

definition d_round4 :: "jsnum \<Rightarrow> jsnum" where
  "d_round4 x = d_div (d_round (d_mul x (fl 10000))) (fl 10000)"

section \<open>Pricing in double precision\<close>

record priced_day_double =
  date_d :: int
  room_type_id_d :: nat
  room_type_name_d :: string
  base_price_d :: jsnum
  variable_cost_d :: jsnum
  demand_probability_d :: jsnum
  price_multiplier_d :: jsnum
  suggested_price_d :: jsnum
  final_price_d :: jsnum
  is_override_d :: bool
  override_notes_d :: "string option"
  contribution_margin_d :: jsnum
  contribution_margin_percentage_d :: jsnum
  expected_occupancy_d :: jsnum
  expected_bookings_d :: jsnum
  expected_revenue_d :: jsnum
  expected_contribution_d :: jsnum

text \<open>
  The same loop body, every number a double: a literal such as \<^verbatim>\<open>0.3\<close> is
  \<open>fl (3 / 10)\<close>, and the operations are nested as JavaScript parses them
  (\<^verbatim>\<open>a * b * c\<close> is \<^verbatim>\<open>(a * b) * c\<close>).
\<close>

definition priceMultiplier_double :: "jsnum \<Rightarrow> jsnum" where
  "priceMultiplier_double demand =
     (if d_le demand (fl (3 / 10))
      then d_add (fl (6 / 10)) (d_mul (d_div demand (fl (3 / 10))) (fl (4 / 10)))
      else if d_le (fl (7 / 10)) demand
      then d_add (fl 1) (d_mul (d_div (d_sub demand (fl (7 / 10))) (fl (3 / 10))) (fl 1))
      else fl 1)"

definition priceDay_double ::
  "room_type \<Rightarrow> int \<Rightarrow> jsnum \<Rightarrow> jsnum \<Rightarrow> jsnum \<Rightarrow> jsnum \<Rightarrow> priced_day_double" where
  "priceDay_double roomType day demand r_override r_adjust r_occupancy =
     (let priceMultiplier = priceMultiplier_double demand;
          suggestedPrice =
            d_div (d_round (d_mul (d_mul (fl (base_price roomType)) priceMultiplier) (fl 100)))
              (fl 100);
          isOverride = d_lt r_override (fl (1 / 10));
          adjustment = d_add (d_neg (fl (1 / 10))) (d_mul r_adjust (fl (25 / 100)));
          finalPrice =
            (if isOverride
             then d_div (d_round (d_mul (d_mul suggestedPrice (d_add (fl 1) adjustment)) (fl 100)))
                    (fl 100)
             else suggestedPrice);
          overrideNotes = (if isOverride then Some ''Manual adjustment for market conditions''
                           else None);
          occupancy =
            d_min (fl (95 / 100))
              (d_max (fl (1 / 10))
                 (d_mul demand (d_add (fl (8 / 10)) (d_mul r_occupancy (fl (4 / 10))))));
          contributionMargin = d_sub finalPrice (fl (variable_cost roomType));
          contributionMarginPercentage = d_mul (d_div contributionMargin finalPrice) (fl 100);
          expectedBookings =
            d_div (d_round (d_mul (d_mul occupancy (fl (of_int (inventory_count roomType))))
                              (fl 10)))
              (fl 10);
          expectedRevenue = d_mul expectedBookings finalPrice;
          expectedContribution = d_mul expectedBookings contributionMargin
      in \<lparr>date_d = day,
          room_type_id_d = rt_id roomType,
          room_type_name_d = name roomType,
          base_price_d = fl (base_price roomType),
          variable_cost_d = fl (variable_cost roomType),
          demand_probability_d = d_round2 demand,
          price_multiplier_d = d_round2 priceMultiplier,
          suggested_price_d = suggestedPrice,
          final_price_d = finalPrice,
          is_override_d = isOverride,
          override_notes_d = overrideNotes,
          contribution_margin_d = d_round2 contributionMargin,
          contribution_margin_percentage_d = d_round2 contributionMarginPercentage,
          expected_occupancy_d = d_round2 occupancy,
          expected_bookings_d = expectedBookings,
          expected_revenue_d = d_round2 expectedRevenue,
          expected_contribution_d = d_round2 expectedContribution\<rparr>)"

text \<open>One iteration with its draws; a draw is a double in \<open>[0, 1)\<close>.\<close>

definition pricing_iteration_double ::
  "room_type \<Rightarrow> int \<Rightarrow> rng \<Rightarrow> nat \<Rightarrow> priced_day_double \<times> nat" where
  "pricing_iteration_double roomType day rnd pos =
     (let demand = d_add (fl (2 / 10)) (d_mul (fl (rnd pos)) (fl (7 / 10)));
          r_override = fl (rnd (pos + 1))
      in if d_lt r_override (fl (1 / 10))
         then (priceDay_double roomType day demand r_override (fl (rnd (pos + 2)))
                 (fl (rnd (pos + 3))), pos + 4)
         else (priceDay_double roomType day demand r_override (Fin 0) (fl (rnd (pos + 2))),
               pos + 3))"

section \<open>Rounding\<close>

lemma floor_rat_numeral [simp]:
  "\<lfloor>numeral a / numeral b :: rat\<rfloor> = numeral a div numeral b"
  by (metis floor_divide_of_int_eq of_int_numeral)

lemma floor_rat_one_div [simp]: "\<lfloor>1 / numeral b :: rat\<rfloor> = 1 div numeral b"
  by (metis floor_divide_of_int_eq of_int_numeral of_int_1)

lemma floor_rat_minus_numeral [simp]:
  "\<lfloor>- (numeral a / numeral b) :: rat\<rfloor> = - numeral a div numeral b"
  by (metis floor_divide_of_int_eq of_int_numeral of_int_minus minus_divide_left)

lemma floor_rat_minus_one_div [simp]:
  "\<lfloor>- (1 / numeral b) :: rat\<rfloor> = - 1 div numeral b"
  by (metis floor_divide_of_int_eq of_int_numeral of_int_minus of_int_1 minus_divide_left)

lemma Math_round_mono: "x \<le> y \<Longrightarrow> Math_round x \<le> Math_round y"
  by (simp add: Math_round_def floor_mono)

lemma Math_round_of_int [simp]: "Math_round (of_int k) = k"
  unfolding Math_round_def by linarith

lemma Math_round_upper: "of_int (Math_round x) \<le> x + 1 / 2"
  unfolding Math_round_def by linarith

lemma Math_round_lower: "x - 1 / 2 < of_int (Math_round x)"
  unfolding Math_round_def by linarith

lemma round2_mono: "x \<le> y \<Longrightarrow> round2 x \<le> round2 y"
  by (simp add: round2_def Math_round_mono divide_right_mono)

lemma round2_cents [simp]: "round2 (of_int k / 100) = of_int k / 100"
  by (simp add: round2_def)

lemma round2_upper: "round2 x \<le> x + 1 / 200"
  using Math_round_upper [of "x * 100"] by (simp add: round2_def field_simps)

lemma round2_lower: "x - 1 / 200 < round2 x"
  using Math_round_lower [of "x * 100"] by (simp add: round2_def field_simps)

section \<open>Properties of a priced day\<close>

text \<open>
  C2: whatever the demand and whatever the random efficiency factor (indeed whatever all
  the arguments of the loop body), the field \<open>expected_occupancy\<close> of the record lies in
  the closed interval from 0.10 to 0.95.
\<close>

theorem expected_occupancy_clamped:
  "1 / 10 \<le> expected_occupancy (priceDay roomType day demand r_override r_adjust r_occupancy) \<and>
   expected_occupancy (priceDay roomType day demand r_override r_adjust r_occupancy) \<le> 95 / 100"
proof -
  let ?occ = "min (95 / 100) (max (1 / 10) (demand * (8 / 10 + r_occupancy * (4 / 10))))"
  have e: "expected_occupancy (priceDay roomType day demand r_override r_adjust r_occupancy)
             = round2 ?occ"
    by (simp add: priceDay_def Let_def)
  have "round2 (of_int 10 / 100) \<le> round2 ?occ"
    by (rule round2_mono) simp
  moreover have "round2 ?occ \<le> round2 (of_int 95 / 100)"
    by (rule round2_mono) simp
  ultimately show ?thesis
    unfolding e round2_cents by simp
qed

section \<open>The price multiplier\<close>



lemma priceMultiplier_mono: "a \<le> b \<Longrightarrow> priceMultiplier a \<le> priceMultiplier b"
  by (auto simp: priceMultiplier_def field_simps split: if_splits)

lemma priceMultiplier_bounds:
  "0 \<le> d \<Longrightarrow> d \<le> 1 \<Longrightarrow> 6 / 10 \<le> priceMultiplier d \<and> priceMultiplier d \<le> 2"
  by (auto simp: priceMultiplier_def field_simps split: if_splits)

lemma suggested_price_eq:
  "suggested_price (priceDay roomType day d ro ra rc)
     = round2 (base_price roomType * priceMultiplier d)"
  by (simp add: priceDay_def Let_def round2_def)




text \<open>
  C10: the multiplier does not decrease when the demand grows, and on \<open>[0, 1]\<close> it lies
  between 0.6 and 2; so for a room type whose base price is not negative the suggested
  price lies between 0.6 times and 2 times the base price, up to the rounding to 2
  decimals (between the two rounded bounds, and within half a cent of the exact ones),
  and it does not decrease with the demand either.
\<close>

theorem suggested_price_between:
  assumes "0 \<le> a" and "a \<le> b" and "b \<le> 1" and "0 \<le> base_price roomType"
  shows "priceMultiplier a \<le> priceMultiplier b \<and>
         6 / 10 \<le> priceMultiplier a \<and> priceMultiplier b \<le> 2 \<and>
         round2 (6 / 10 * base_price roomType)
           \<le> suggested_price (priceDay roomType day a ro ra rc) \<and>
         suggested_price (priceDay roomType day a ro ra rc)
           \<le> suggested_price (priceDay roomType day b ro ra rc) \<and>
         suggested_price (priceDay roomType day b ro ra rc)
           \<le> round2 (2 * base_price roomType) \<and>
         6 / 10 * base_price roomType - 1 / 200
           < suggested_price (priceDay roomType day a ro ra rc) \<and>
         suggested_price (priceDay roomType day b ro ra rc)
           \<le> 2 * base_price roomType + 1 / 200"
proof -
  let ?B = "base_price roomType"
  have m: "priceMultiplier a \<le> priceMultiplier b"
    using assms(2) by (rule priceMultiplier_mono)
  have lo: "6 / 10 \<le> priceMultiplier a"
    using priceMultiplier_bounds [of a] assms by simp
  have hi: "priceMultiplier b \<le> 2"
    using priceMultiplier_bounds [of b] assms by simp
  have p1: "6 / 10 * ?B \<le> ?B * priceMultiplier a"
    using mult_left_mono [OF lo assms(4)] by (simp add: mult.commute)
  have p2: "?B * priceMultiplier a \<le> ?B * priceMultiplier b"
    using mult_left_mono [OF m assms(4)] .
  have p3: "?B * priceMultiplier b \<le> 2 * ?B"
    using mult_left_mono [OF hi assms(4)] by (simp add: mult.commute)
  have r1: "round2 (6 / 10 * ?B) \<le> round2 (?B * priceMultiplier a)"
    using p1 by (rule round2_mono)
  have r2: "round2 (?B * priceMultiplier a) \<le> round2 (?B * priceMultiplier b)"
    using p2 by (rule round2_mono)
  have r3: "round2 (?B * priceMultiplier b) \<le> round2 (2 * ?B)"
    using p3 by (rule round2_mono)
  have r4: "6 / 10 * ?B - 1 / 200 < round2 (?B * priceMultiplier a)"
    using round2_lower [of "?B * priceMultiplier a"] p1 by linarith
  have r5: "round2 (?B * priceMultiplier b) \<le> 2 * ?B + 1 / 200"
    using round2_upper [of "?B * priceMultiplier b"] p3 by linarith
  show ?thesis
    unfolding suggested_price_eq using m lo hi r1 r2 r3 r4 r5 by simp
qed

theorem suggested_price_between_witness:
  "(0::rat) \<le> 1 / 4 \<and> (1 / 4 :: rat) \<le> 4 / 5 \<and> (4 / 5 :: rat) \<le> 1 \<and>
   0 \<le> base_price (roomTypes ! 0) \<and>
   priceMultiplier (1 / 4) \<le> priceMultiplier (4 / 5) \<and>
   round2 (6 / 10 * base_price (roomTypes ! 0))
     \<le> suggested_price (priceDay (roomTypes ! 0) 20241 (1 / 4) (1 / 2) 0 (1 / 2)) \<and>
   suggested_price (priceDay (roomTypes ! 0) 20241 (4 / 5) (1 / 2) 0 (1 / 2))
     \<le> round2 (2 * base_price (roomTypes ! 0))"
  using suggested_price_between [of "1 / 4" "4 / 5" "roomTypes ! 0" 20241 "1 / 2" 0 "1 / 2"]
  by (simp add: roomTypes_def)

section \<open>Rounding to a double\<close>

lemma round_half_even_le: "r \<le> of_int n \<Longrightarrow> round_half_even r \<le> n"
  unfolding round_half_even_def Let_def by (auto split: if_splits) linarith+

lemma round_half_even_ge: "of_int n \<le> r \<Longrightarrow> n \<le> round_half_even r"
  unfolding round_half_even_def Let_def by (auto split: if_splits) linarith+

lemma round_half_even_small: "0 \<le> r \<Longrightarrow> r \<le> 1 / 2 \<Longrightarrow> round_half_even r = 0"
proof -
  assume a: "0 \<le> r" "r \<le> 1 / 2"
  then have f: "\<lfloor>r\<rfloor> = 0" by linarith
  show ?thesis unfolding round_half_even_def Let_def f using a by simp
qed

lemma pow2_pos: "0 < (2::rat) powi e"
  by (simp add: zero_less_power_int)

lemma pow2_diff: "(2::rat) powi (k - e) = 2 powi k / 2 powi e"
  by (simp add: power_int_diff)

lemma pow2_nat: "0 \<le> n \<Longrightarrow> (2::rat) powi n = of_int (2 ^ nat n)"
  by (simp add: power_int_def)

text \<open>The rounded magnitude, for any exponent.\<close>

lemma rounded_le:
  assumes "0 \<le> a" and "a \<le> 2 powi k"
  shows "of_int (round_half_even (a / 2 powi e)) * 2 powi e \<le> (2::rat) powi k"
proof (cases "e \<le> k")
  case True
  have "a / 2 powi e \<le> 2 powi k / 2 powi e"
    using assms pow2_pos [of e] by (simp add: divide_right_mono)
  also have "\<dots> = of_int (2 ^ nat (k - e))"
    using True by (simp add: pow2_diff [symmetric] pow2_nat)
  finally have "round_half_even (a / 2 powi e) \<le> 2 ^ nat (k - e)"
    by (rule round_half_even_le)
  then have "(of_int (round_half_even (a / 2 powi e)) :: rat) \<le> of_int (2 ^ nat (k - e))"
    by (simp only: of_int_le_iff)
  also have "\<dots> = 2 powi k / 2 powi e"
    using True by (simp add: pow2_diff [symmetric] pow2_nat)
  finally show ?thesis
    using pow2_pos [of e] by (simp add: field_simps)
next
  case False
  then have "k + 1 \<le> e" by simp
  then have "(2::rat) powi (k + 1) \<le> 2 powi e"
    by (intro power_int_increasing) simp_all
  then have "2 * (2::rat) powi k \<le> 2 powi e"
    by (simp add: power_int_add)
  then have "a / 2 powi e \<le> 1 / 2"
    using assms pow2_pos [of e] by (simp add: field_simps)
  moreover have "0 \<le> a / 2 powi e"
    using assms pow2_pos [of e] by simp
  ultimately have "round_half_even (a / 2 powi e) = 0"
    by (intro round_half_even_small)
  then show ?thesis
    using pow2_pos [of k] by simp
qed

lemma rounded_nonneg:
  assumes "0 \<le> a"
  shows "0 \<le> of_int (round_half_even (a / 2 powi e)) * (2::rat) powi e"
proof -
  have "of_int 0 \<le> a / 2 powi e"
    using assms pow2_pos [of e] by simp
  then have "0 \<le> round_half_even (a / 2 powi e)"
    by (rule round_half_even_ge)
  then show ?thesis
    using pow2_pos [of e] by simp
qed

lemma fl_value:
  assumes "\<bar>x\<bar> \<le> 2 powi k" and "k \<le> 1023"
  shows "fl x = Fin (if 0 < x
                     then of_int (round_half_even (\<bar>x\<bar> / 2 powi double_exponent \<bar>x\<bar>))
                            * 2 powi double_exponent \<bar>x\<bar>
                     else - (of_int (round_half_even (\<bar>x\<bar> / 2 powi double_exponent \<bar>x\<bar>))
                            * 2 powi double_exponent \<bar>x\<bar>))"
proof -
  let ?e = "double_exponent \<bar>x\<bar>"
  let ?v = "of_int (round_half_even (\<bar>x\<bar> / 2 powi ?e)) * (2::rat) powi ?e"
  have v: "?v \<le> 2 powi k"
    using assms(1) by (intro rounded_le) simp_all
  have "(2::rat) powi k \<le> 2 powi 1023"
    using assms(2) by (intro power_int_increasing) simp_all
  also have "\<dots> < 2 ^ 1024"
    by (simp add: power_int_def)
  finally have "?v < 2 ^ 1024"
    using v by simp
  then show ?thesis
    by (simp add: fl_def Let_def)
qed

lemma fl_abs_le:
  assumes "\<bar>x\<bar> \<le> 2 powi k" and "k \<le> 1023"
  shows "\<exists>y. fl x = Fin y \<and> \<bar>y\<bar> \<le> 2 powi k \<and> (0 \<le> x \<longrightarrow> 0 \<le> y) \<and> (x \<le> 0 \<longrightarrow> y \<le> 0)"
proof -
  let ?e = "double_exponent \<bar>x\<bar>"
  let ?v = "of_int (round_half_even (\<bar>x\<bar> / 2 powi ?e)) * (2::rat) powi ?e"
  have v: "?v \<le> 2 powi k"
    using assms(1) by (intro rounded_le) simp_all
  have n: "0 \<le> ?v"
    by (intro rounded_nonneg) simp
  have z: "x = 0 \<Longrightarrow> ?v = 0"
    by (simp add: round_half_even_small)
  show ?thesis
    unfolding fl_value [OF assms] using v n z by (cases "0 < x"; cases "x = 0") auto
qed

lemma double_exponent_normal:
  assumes "0 < a"
  shows "double_exponent a = - 1074 \<or> 2 powi (double_exponent a + 52) \<le> a"
proof -
  obtain p q where pq: "quotient_of a = (p, q)"
    by (cases "quotient_of a")
  then have q: "0 < q" and a: "a = of_int p / of_int q"
    using quotient_of_denom_pos quotient_of_div by auto
  with assms have p: "0 < p"
    by (simp add: zero_less_divide_iff)
  have "2 ^ nat (bitlen p - 1) \<le> p"
    using bitlen_bounds [OF p] by simp
  then have "(of_int (2 ^ nat (bitlen p - 1)) :: rat) \<le> of_int p"
    by (simp only: of_int_le_iff)
  moreover have "1 \<le> bitlen p"
    using p by (simp add: bitlen_alt_def)
  ultimately have lp: "(2::rat) powi (bitlen p - 1) \<le> of_int p"
    by (simp add: pow2_nat)
  have "q < 2 ^ nat (bitlen q)"
    using bitlen_bounds [OF q] by simp
  then have "(of_int q :: rat) \<le> of_int (2 ^ nat (bitlen q))"
    by (simp only: of_int_le_iff)
  then have uq: "(of_int q :: rat) \<le> 2 powi (bitlen q)"
    using bitlen_nonneg [of q] by (simp add: pow2_nat)
  have "(2::rat) powi (bitlen p - 1 - bitlen q) = 2 powi (bitlen p - 1) / 2 powi (bitlen q)"
    by (rule pow2_diff)
  also have "\<dots> \<le> of_int p / of_int q"
  proof (rule frac_le)
    show "0 \<le> (of_int p :: rat)" using p by simp
    show "(2::rat) powi (bitlen p - 1) \<le> of_int p" by (rule lp)
    show "0 < (of_int q :: rat)" using q by simp
    show "(of_int q :: rat) \<le> 2 powi bitlen q" by (rule uq)
  qed
  finally have e0: "(2::rat) powi (bitlen p - bitlen q - 53 + 52) \<le> a"
    unfolding a by (simp add: algebra_simps)
  show ?thesis
    using e0 by (auto simp: double_exponent_def pq Let_def max_def algebra_simps)
qed

lemma fl_between:
  assumes "2 powi j \<le> x" and "x \<le> 2 powi k" and "- 1074 \<le> j" and "k \<le> 1023"
  shows "\<exists>y. fl x = Fin y \<and> 2 powi j \<le> y \<and> y \<le> 2 powi k"
proof -
  let ?e = "double_exponent \<bar>x\<bar>"
  let ?v = "of_int (round_half_even (\<bar>x\<bar> / 2 powi ?e)) * (2::rat) powi ?e"
  have x: "0 < x"
    using assms(1) pow2_pos [of j] by linarith
  then have ax: "\<bar>x\<bar> = x"
    by simp
  have f: "fl x = Fin ?v"
    using fl_value [of x k] assms x by simp
  have u: "?v \<le> 2 powi k"
    using assms(2) x by (intro rounded_le) simp_all
  have l: "2 powi j \<le> ?v"
  proof (cases "?e \<le> j")
    case True
    have "(of_int (2 ^ nat (j - ?e)) :: rat) = 2 powi j / 2 powi ?e"
      using True by (simp add: pow2_diff [symmetric] pow2_nat)
    also have "\<dots> \<le> \<bar>x\<bar> / 2 powi ?e"
      using assms(1) ax pow2_pos [of ?e] by (simp add: divide_right_mono)
    finally have "2 ^ nat (j - ?e) \<le> round_half_even (\<bar>x\<bar> / 2 powi ?e)"
      by (rule round_half_even_ge)
    then have "(of_int (2 ^ nat (j - ?e)) :: rat) \<le> of_int (round_half_even (\<bar>x\<bar> / 2 powi ?e))"
      by (simp only: of_int_le_iff)
    moreover have "(of_int (2 ^ nat (j - ?e)) :: rat) = 2 powi j / 2 powi ?e"
      using True by (simp add: pow2_diff [symmetric] pow2_nat)
    ultimately have "(2::rat) powi j / 2 powi ?e \<le> of_int (round_half_even (\<bar>x\<bar> / 2 powi ?e))"
      by linarith
    then have "(2::rat) powi j / 2 powi ?e * 2 powi ?e \<le> ?v"
      using pow2_pos [of ?e] by (intro mult_right_mono) simp_all
    then show ?thesis
      using pow2_pos [of ?e] by simp
  next
    case False
    then have je: "j < ?e" by simp
    with assms(3) have "?e \<noteq> - 1074" by simp
    then have "2 powi (?e + 52) \<le> \<bar>x\<bar>"
      using double_exponent_normal [of "\<bar>x\<bar>"] x by simp
    then have "(2::rat) powi 52 * 2 powi ?e \<le> \<bar>x\<bar>"
      by (simp add: power_int_add mult.commute)
    then have "(2::rat) powi 52 \<le> \<bar>x\<bar> / 2 powi ?e"
      using pow2_pos [of ?e] by (simp add: field_simps)
    moreover have "(of_int 1 :: rat) \<le> 2 powi 52"
      by (simp add: power_int_def)
    ultimately have "of_int 1 \<le> \<bar>x\<bar> / 2 powi ?e"
      by linarith
    then have "1 \<le> round_half_even (\<bar>x\<bar> / 2 powi ?e)"
      by (rule round_half_even_ge)
    then have "(1::rat) \<le> of_int (round_half_even (\<bar>x\<bar> / 2 powi ?e))"
      by simp
    then have "(2::rat) powi ?e \<le> ?v"
      using pow2_pos [of ?e] by (simp add: field_simps)
    moreover have "(2::rat) powi j \<le> 2 powi ?e"
      using je by (intro power_int_increasing) simp_all
    ultimately show ?thesis by linarith
  qed
  show ?thesis
    using f u l by simp
qed


lemma double_exponent_unique:
  assumes "2 powi (e + 52) \<le> a" and "a < 2 powi (e + 53)" and "- 1074 \<le> e"
  shows "double_exponent a = e"
proof -
  have a0: "0 < a"
    using assms(1) pow2_pos [of "e + 52"] by linarith
  obtain p q where pq: "quotient_of a = (p, q)"
    by (cases "quotient_of a")
  then have q: "0 < q" and a: "a = of_int p / of_int q"
    using quotient_of_denom_pos quotient_of_div by auto
  with a0 have p: "0 < p"
    by (simp add: zero_less_divide_iff)
  define e0 where "e0 = bitlen p - bitlen q - 53"
  define u where "u = (if 2 powi (e0 + 53) \<le> a then e0 + 1 else e0)"
  have "2 ^ nat (bitlen p - 1) \<le> p"
    using bitlen_bounds [OF p] by simp
  then have "(of_int (2 ^ nat (bitlen p - 1)) :: rat) \<le> of_int p"
    by (simp only: of_int_le_iff)
  moreover have bp: "1 \<le> bitlen p"
    using p by (simp add: bitlen_alt_def)
  ultimately have lp: "(2::rat) powi (bitlen p - 1) \<le> of_int p"
    by (simp add: pow2_nat)
  have "p < 2 ^ nat (bitlen p)"
    using bitlen_bounds [OF p] by simp
  then have "(of_int p :: rat) < of_int (2 ^ nat (bitlen p))"
    by (simp only: of_int_less_iff)
  then have up: "(of_int p :: rat) < 2 powi (bitlen p)"
    using bitlen_nonneg [of p] by (simp add: pow2_nat)
  have "2 ^ nat (bitlen q - 1) \<le> q"
    using bitlen_bounds [OF q] by simp
  then have "(of_int (2 ^ nat (bitlen q - 1)) :: rat) \<le> of_int q"
    by (simp only: of_int_le_iff)
  moreover have bq: "1 \<le> bitlen q"
    using q by (simp add: bitlen_alt_def)
  ultimately have lq: "(2::rat) powi (bitlen q - 1) \<le> of_int q"
    by (simp add: pow2_nat)
  have "q < 2 ^ nat (bitlen q)"
    using bitlen_bounds [OF q] by simp
  then have "(of_int q :: rat) \<le> of_int (2 ^ nat (bitlen q))"
    by (simp only: of_int_le_iff)
  then have uq: "(of_int q :: rat) \<le> 2 powi (bitlen q)"
    using bitlen_nonneg [of q] by (simp add: pow2_nat)
  have "(2::rat) powi (bitlen p - 1 - bitlen q) = 2 powi (bitlen p - 1) / 2 powi (bitlen q)"
    by (rule pow2_diff)
  also have "\<dots> \<le> of_int p / of_int q"
  proof (rule frac_le)
    show "0 \<le> (of_int p :: rat)" using p by simp
    show "(2::rat) powi (bitlen p - 1) \<le> of_int p" by (rule lp)
    show "0 < (of_int q :: rat)" using q by simp
    show "(of_int q :: rat) \<le> 2 powi bitlen q" by (rule uq)
  qed
  finally have lo: "(2::rat) powi (e0 + 52) \<le> a"
    unfolding a e0_def by (simp add: algebra_simps)
  have "of_int p / of_int q < (2::rat) powi (bitlen p) / 2 powi (bitlen q - 1)"
  proof (rule frac_less)
    show "0 \<le> (of_int p :: rat)" using p by simp
    show "(of_int p :: rat) < 2 powi bitlen p" by (rule up)
    show "0 < (2::rat) powi (bitlen q - 1)" by (rule pow2_pos)
    show "(2::rat) powi (bitlen q - 1) \<le> of_int q" by (rule lq)
  qed
  also have "\<dots> = 2 powi (bitlen p - (bitlen q - 1))"
    by (rule pow2_diff [symmetric])
  finally have hi: "a < 2 powi (e0 + 54)"
    unfolding a e0_def by (simp add: algebra_simps)
  have ulo: "2 powi (u + 52) \<le> a"
    using lo by (auto simp: u_def algebra_simps)
  have uhi: "a < 2 powi (u + 53)"
    using hi by (auto simp: u_def algebra_simps)
  have "u = e"
  proof (rule ccontr)
    assume "u \<noteq> e"
    then consider "u + 1 \<le> e" | "e + 1 \<le> u" by linarith
    then show False
    proof cases
      case 1
      then have "(2::rat) powi (u + 53) \<le> 2 powi (e + 52)"
        by (intro power_int_increasing) simp_all
      with uhi assms(1) show False by linarith
    next
      case 2
      then have "(2::rat) powi (e + 53) \<le> 2 powi (u + 52)"
        by (intro power_int_increasing) simp_all
      with ulo assms(2) show False by linarith
    qed
  qed
  then show ?thesis
    using assms(3) by (auto simp: double_exponent_def pq Let_def u_def e0_def max_def split: if_splits)
qed

lemma round_half_even_near:
  assumes "\<bar>r - of_int m\<bar> < 1 / 2"
  shows "round_half_even r = m"
proof (cases "of_int m \<le> r")
  case True
  then have f: "\<lfloor>r\<rfloor> = m"
    using assms by (intro floor_unique) linarith+
  show ?thesis
    unfolding round_half_even_def Let_def f using assms True by simp
next
  case False
  have a1: "(of_int (m - 1) :: rat) = of_int m - 1"
    by simp
  have l: "of_int (m - 1) \<le> r"
    unfolding a1 using assms by linarith
  have u: "r < of_int (m - 1) + 1"
    unfolding a1 using False by linarith
  have f: "\<lfloor>r\<rfloor> = m - 1"
    using l u by (rule floor_unique)
  have "1 / 2 < r - of_int (m - 1)"
    unfolding a1 using assms by linarith
  then show ?thesis
    unfolding round_half_even_def Let_def f by simp
qed

lemma round_half_even_tie_down: "r = of_int m + 1 / 2 \<Longrightarrow> even m \<Longrightarrow> round_half_even r = m"
proof -
  assume r: "r = of_int m + 1 / 2" and e: "even m"
  have "\<lfloor>r\<rfloor> = m" unfolding r by linarith
  then show ?thesis
    unfolding round_half_even_def Let_def using r e by simp
qed

lemma round_half_even_tie_up: "r = of_int m - 1 / 2 \<Longrightarrow> even m \<Longrightarrow> round_half_even r = m"
proof -
  assume r: "r = of_int m - 1 / 2" and e: "even m"
  have f: "\<lfloor>r\<rfloor> = m - 1" unfolding r by linarith
  have "odd (m - 1)" using e by simp
  then show ?thesis
    unfolding round_half_even_def Let_def f using r by simp
qed

text \<open>How a concrete rounding is checked: the exponent and the significand are given.\<close>

lemma fl_eqI:
  assumes "2 powi (e + 52) \<le> x" and "x < 2 powi (e + 53)" and "- 1074 \<le> e" and "e \<le> 970"
    and "round_half_even (x / 2 powi e) = m" and "v = of_int m * 2 powi e"
  shows "fl x = Fin v"
proof -
  have x: "0 < x"
    using assms(1) pow2_pos [of "e + 52"] by linarith
  then have ax: "\<bar>x\<bar> = x" by simp
  have de: "double_exponent x = e"
    using assms(1-3) by (rule double_exponent_unique)
  have "x \<le> 2 powi (e + 53)"
    using assms(2) by simp
  moreover have "e + 53 \<le> 1023"
    using assms(4) by simp
  ultimately have "fl x = Fin (of_int (round_half_even (x / 2 powi e)) * 2 powi e)"
    using fl_value [of x "e + 53"] x ax de by simp
  then show ?thesis
    using assms(5,6) by simp
qed

lemma fl_zero [simp]: "fl 0 = Fin 0"
  using fl_abs_le [of 0 0] by auto

section \<open>The contribution margin of a priced day\<close>

text \<open>
  C3, as the code has it, in double precision: the field \<open>contribution_margin\<close> is
  \<^verbatim>\<open>Math.round((finalPrice - variable_cost) * 100) / 100\<close>, the difference of the final
  price and the variable cost rounded to 2 decimals, and not the difference itself.
\<close>

theorem contribution_margin_double_rounded:
  "contribution_margin_d (priceDay_double roomType day demand r_override r_adjust r_occupancy)
     = d_round2
         (d_sub (final_price_d (priceDay_double roomType day demand r_override r_adjust r_occupancy))
                (variable_cost_d (priceDay_double roomType day demand r_override r_adjust r_occupancy)))"
  by (simp add: priceDay_double_def Let_def)

text \<open>
  The roundings of the run of the loop body for the Deluxe Room of the module's table
  (base price 299, variable cost 65) in which every draw is 0.125.
\<close>

lemma c3_fl_01: "fl (1 / 5) = Fin (3602879701896397 / 18014398509481984)"
  by (rule fl_eqI [where e = "- 55" and m = 7205759403792794])
     (simp_all add: round_half_even_near power_int_minus)

lemma c3_fl_02: "fl (1 / 8) = Fin (1 / 8)"
  by (rule fl_eqI [where e = "- 55" and m = 4503599627370496])
     (simp_all add: round_half_even_near power_int_minus)

lemma c3_fl_03: "fl (7 / 10) = Fin (3152519739159347 / 4503599627370496)"
  by (rule fl_eqI [where e = "- 53" and m = 6305039478318694])
     (simp_all add: round_half_even_near power_int_minus)

lemma c3_fl_04: "fl (3152519739159347 / 36028797018963968) = Fin (3152519739159347 / 36028797018963968)"
  by (rule fl_eqI [where e = "- 56" and m = 6305039478318694])
     (simp_all add: round_half_even_near power_int_minus)

lemma c3_fl_05: "fl (10358279142952141 / 36028797018963968) = Fin (2589569785738035 / 9007199254740992)"
  by (rule fl_eqI [where e = "- 54" and m = 5179139571476070])
     (simp_all add: round_half_even_tie_down power_int_minus)

lemma c3_fl_06: "fl (3 / 10) = Fin (5404319552844595 / 18014398509481984)"
  by (rule fl_eqI [where e = "- 54" and m = 5404319552844595])
     (simp_all add: round_half_even_near power_int_minus)

lemma c3_fl_07: "fl (3 / 5) = Fin (5404319552844595 / 9007199254740992)"
  by (rule fl_eqI [where e = "- 53" and m = 5404319552844595])
     (simp_all add: round_half_even_near power_int_minus)

lemma c3_fl_08: "fl (1035827914295214 / 1080863910568919) = Fin (4315949642896725 / 4503599627370496)"
  by (rule fl_eqI [where e = "- 53" and m = 8631899285793450])
     (simp_all add: round_half_even_near power_int_minus)

lemma c3_fl_09: "fl (2 / 5) = Fin (3602879701896397 / 9007199254740992)"
  by (rule fl_eqI [where e = "- 54" and m = 7205759403792794])
     (simp_all add: round_half_even_near power_int_minus)

lemma c3_fl_10: "fl (15549847362799613653922920599825 / 40564819207303340847894502572032) = Fin (863189928579345 / 2251799813685248)"
  by (rule fl_eqI [where e = "- 54" and m = 6905519428634760])
     (simp_all add: round_half_even_near power_int_minus)

lemma c3_fl_11: "fl (8857079267161975 / 9007199254740992) = Fin (8857079267161975 / 9007199254740992)"
  by (rule fl_eqI [where e = "- 53" and m = 8857079267161975])
     (simp_all add: round_half_even_near power_int_minus)

lemma c3_fl_12: "fl 100 = Fin 100"
  by (rule fl_eqI [where e = "- 46" and m = 7036874417766400])
     (simp_all add: round_half_even_near power_int_minus)

lemma c3_fl_13: "fl 299 = Fin 299"
  by (rule fl_eqI [where e = "- 44" and m = 5260063627280384])
     (simp_all add: round_half_even_near power_int_minus)

lemma c3_fl_14: "fl (2648266700881430525 / 9007199254740992) = Fin (1293098975039761 / 4398046511104)"
  by (rule fl_eqI [where e = "- 44" and m = 5172395900159044])
     (simp_all add: round_half_even_near power_int_minus)

lemma c3_fl_15: "fl (32327474375994025 / 1099511627776) = Fin (4040934296999253 / 137438953472)"
  by (rule fl_eqI [where e = "- 38" and m = 8081868593998506])
     (simp_all add: round_half_even_near power_int_minus)

lemma c3_fl_16: "fl 29402 = Fin 29402"
  by (rule fl_eqI [where e = "- 38" and m = 8081960219967488])
     (simp_all add: round_half_even_near power_int_minus)

lemma c3_fl_17: "fl (14701 / 50) = Fin (646556817597399 / 2199023255552)"
  by (rule fl_eqI [where e = "- 44" and m = 5172454540779192])
     (simp_all add: round_half_even_near power_int_minus)

lemma c3_fl_18: "fl (1 / 10) = Fin (3602879701896397 / 36028797018963968)"
  by (rule fl_eqI [where e = "- 56" and m = 7205759403792794])
     (simp_all add: round_half_even_near power_int_minus)

lemma c3_fl_19: "fl 65 = Fin 65"
  by (rule fl_eqI [where e = "- 46" and m = 4573968371548160])
     (simp_all add: round_half_even_near power_int_minus)

lemma c3_fl_20: "fl (503620305986519 / 2199023255552) = Fin (503620305986519 / 2199023255552)"
  by (rule fl_eqI [where e = "- 45" and m = 8057924895784304])
     (simp_all add: round_half_even_near power_int_minus)

lemma c3_fl_21: "fl (12590507649662975 / 549755813888) = Fin 22902"
  by (rule fl_eqI [where e = "- 38" and m = 6295253824831488])
     (simp_all add: round_half_even_tie_up power_int_minus)

lemma c3_fl_22: "fl 22902 = Fin 22902"
  by (rule fl_eqI [where e = "- 38" and m = 6295253824831488])
     (simp_all add: round_half_even_near power_int_minus)

lemma c3_fl_23: "fl (11451 / 50) = Fin (8057924895784305 / 35184372088832)"
  by (rule fl_eqI [where e = "- 45" and m = 8057924895784305])
     (simp_all add: round_half_even_near power_int_minus)

text \<open>
  C3 as stated fails in that run: the demand is 0.2875, there is no override, the final
  price is 294.02, and the double \<open>294.02 - 65\<close> is 229.01999999999998, while the field
  is the double 229.02.
\<close>

theorem contribution_margin_double_counterexample:
  "final_price_d (fst (pricing_iteration_double (roomTypes ! 1) 20241 (\<lambda>n. 1 / 8) 0))
     = Fin (646556817597399 / 2199023255552) \<and>
   variable_cost_d (fst (pricing_iteration_double (roomTypes ! 1) 20241 (\<lambda>n. 1 / 8) 0)) = Fin 65 \<and>
   d_sub (Fin (646556817597399 / 2199023255552)) (Fin 65) = Fin (503620305986519 / 2199023255552) \<and>
   contribution_margin_d (fst (pricing_iteration_double (roomTypes ! 1) 20241 (\<lambda>n. 1 / 8) 0))
     = Fin (8057924895784305 / 35184372088832) \<and>
   contribution_margin_d (fst (pricing_iteration_double (roomTypes ! 1) 20241 (\<lambda>n. 1 / 8) 0))
     \<noteq> d_sub (final_price_d (fst (pricing_iteration_double (roomTypes ! 1) 20241 (\<lambda>n. 1 / 8) 0)))
              (variable_cost_d (fst (pricing_iteration_double (roomTypes ! 1) 20241 (\<lambda>n. 1 / 8) 0)))"
  by (simp add: pricing_iteration_double_def priceDay_double_def priceMultiplier_double_def
      d_round2_def d_sub_def Math_round_def Let_def roomTypes_def
      c3_fl_01 c3_fl_02 c3_fl_03 c3_fl_04 c3_fl_05 c3_fl_06 c3_fl_07 c3_fl_08 c3_fl_09 c3_fl_10 c3_fl_11 c3_fl_12 c3_fl_13 c3_fl_14 c3_fl_15 c3_fl_16 c3_fl_17 c3_fl_18 c3_fl_19 c3_fl_20 c3_fl_21 c3_fl_22 c3_fl_23)

section \<open>Failure of the loop body\<close>




lemma pricing_loop_at_valid:
  "- 100000000 \<le> s + int i \<Longrightarrow> s + int i + int k \<le> 100000001 \<Longrightarrow>
   pricing_loop_at roomType (Date s) rnd i k pos = Inr (pricing_loop roomType s rnd i k pos)"
proof (induction k arbitrary: i pos)
  case 0
  then show ?case by simp
next
  case (Suc k)
  have "pricing_iteration_at roomType (Date s) i rnd pos
          = Inr (pricing_iteration roomType (s + int i) rnd pos)"
    using Suc.prems
    by (simp add: pricing_iteration_at_def add_days_def make_date_def toISOString_def)
  moreover have "pricing_loop_at roomType (Date s) rnd (Suc i) k pos'
          = Inr (pricing_loop roomType s rnd (Suc i) k pos')" for pos'
    using Suc.prems by (intro Suc.IH) simp_all
  ultimately show ?case
    by (simp add: case_prod_beta)
qed

lemma generatePricingData_at_valid:
  "- 100000000 \<le> s \<Longrightarrow> s \<le> 99999971 \<Longrightarrow>
   generatePricingData_at table roomTypeId (Date s) rnd pos
     = Inr (generatePricingData table roomTypeId s rnd pos)"
  by (simp add: generatePricingData_at_def generatePricingData_def pricing_loop_at_valid
      split: option.split)




section \<open>The analytics loop\<close>

lemma fold_add_room_type_draws:
  "draws (fold (add_room_type rnd) rts t) = draws t + 2 * length rts"
  by (induction rts arbitrary: t) (simp_all add: add_room_type_def Let_def)

lemma new_entry_date [simp]: "a_date (fst (new_entry hotelRoomTypes g rnd pos)) = g"
  by (simp add: new_entry_def Let_def)

lemma new_entry_draws [simp]:
  "snd (new_entry hotelRoomTypes g rnd pos) = pos + 2 * length hotelRoomTypes"
  by (simp add: new_entry_def Let_def fold_add_room_type_draws)


section \<open>A hotel without room types\<close>

text \<open>
  C9, as the code has it: for a hotel with no room types the analytics functions do not
  fail; they return the report \<^verbatim>\<open>{ analytics: [] }\<close> and draw nothing.  It is the
  pricing recommendations that fail in that case, with the error
  \<^verbatim>\<open>No room types found for the specified criteria\<close>.
\<close>

theorem no_room_types_empty_report:
  assumes "filter (\<lambda>rt. hotel_id rt = hotelId) table = []"
  shows "generateRevenueAnalytics table hotelId startDate days groupBy rnd pos
           = (\<lparr>r_hotel_id = None, r_start_date = None, r_end_date = None,
                r_group_by = None, analytics = []\<rparr>, pos) \<and>
         getContributionMarginAnalytics table hotelId startDate endDate groupBy rnd pos
           = Inr (\<lparr>r_hotel_id = None, r_start_date = None, r_end_date = None,
                    r_group_by = None, analytics = []\<rparr>, pos) \<and>
         getPricingRecommendations table hotelId startDate days roomTypeId rnd pos
           = Inl (Error ''No room types found for the specified criteria'')"
proof -
  have g: "generateRevenueAnalytics table hotelId startDate n groupBy rnd pos
           = (\<lparr>r_hotel_id = None, r_start_date = None, r_end_date = None,
                r_group_by = None, analytics = []\<rparr>, pos)" for n
    using assms by (simp add: generateRevenueAnalytics_def)
  have c: "getContributionMarginAnalytics table hotelId startDate endDate groupBy rnd pos
           = Inr (\<lparr>r_hotel_id = None, r_start_date = None, r_end_date = None,
                    r_group_by = None, analytics = []\<rparr>, pos)"
    using assms by (simp add: getContributionMarginAnalytics_def getRevenueAnalytics_def g)
  have "filter (\<lambda>rt. rt_id rt = r \<and> hotel_id rt = hotelId) table = []" for r
    using assms by (auto simp: filter_empty_conv)
  then have p: "getPricingRecommendations table hotelId startDate days roomTypeId rnd pos
           = Inl (Error ''No room types found for the specified criteria'')"
    using assms by (simp add: getPricingRecommendations_def split: option.split)
  show ?thesis
    using g c p by simp
qed

theorem no_room_types_empty_report_witness:
  "filter (\<lambda>rt. hotel_id rt = 9) roomTypes = [] \<and>
   analytics (fst (generateRevenueAnalytics roomTypes 9 20241 30 ''day'' (\<lambda>n. 1 / 2) 0)) = [] \<and>
   getPricingRecommendations roomTypes 9 20241 30 None (\<lambda>n. 1 / 2) 0
     = Inl (Error ''No room types found for the specified criteria'')"
proof -
  have h: "filter (\<lambda>rt. hotel_id rt = 9) roomTypes = []"
    by (simp add: roomTypes_def)
  show ?thesis
    using h no_room_types_empty_report [OF h, of 20241 30 "''day''" "\<lambda>n. 1 / 2" 0 None None]
    by simp
qed

text \<open>
  C9 as stated fails for hotel 9, which has no room types in the module's table: the
  contribution report is a value, with an empty list of buckets.
\<close>

theorem empty_mapping_counterexample:
  "getContributionMarginAnalytics roomTypes 9 20241 (Some 20271) ''day'' (\<lambda>n. 1 / 2) 0
     = Inr (\<lparr>r_hotel_id = None, r_start_date = None, r_end_date = None,
              r_group_by = None, analytics = []\<rparr>, 0)"
  by (simp add: getContributionMarginAnalytics_def getRevenueAnalytics_def
      generateRevenueAnalytics_def roomTypes_def)

section \<open>The number of priced days\<close>

lemma pricing_loop_dates:
  "map date (fst (pricing_loop roomType startDate rnd i k pos))
     = map (\<lambda>j. startDate + int j) [i ..< i + k]"
proof (induction k arbitrary: i pos)
  case 0
  then show ?case by simp
next
  case (Suc k)
  have d: "date (fst (pricing_iteration roomType (startDate + int i) rnd pos)) = startDate + int i"
    by (simp add: pricing_iteration_def priceDay_def Let_def)
  have "[i ..< i + Suc k] = i # [Suc i ..< Suc i + k]"
    by (simp add: upt_rec)
  then show ?case
    using Suc.IH [of "Suc i"] d by (simp add: case_prod_beta Let_def)
qed

lemma pricing_loop_length: "length (fst (pricing_loop roomType startDate rnd i k pos)) = k"
  using arg_cong [OF pricing_loop_dates, of length roomType startDate rnd i k pos] by simp

text \<open>
  C4 at the call \<^verbatim>\<open>getPricingRecommendations(1, 2025-06-02, 7, 1)\<close>: the response says
  \<open>days = 7\<close>, and the room type's prices are 30 records, for the 30 consecutive days
  from the start date.  The parameter \<^verbatim>\<open>days\<close> does not reach
  \<^verbatim>\<open>generatePricingData\<close>, whose loop always runs 30 times.
\<close>

theorem thirty_days_whatever_days:
  "map_sum id (\<lambda>(r, pos'). (pr_days r,
       map (\<lambda>(k, v). (k, length (prices v), map date (prices v))) (recommendations r)))
     (getPricingRecommendations roomTypes 1 20241 7 (Some 1) rnd pos)
   = Inr (7, [(1, 30, map (\<lambda>j. 20241 + int j) [0 ..< 30])])"
  by (simp add: getPricingRecommendations_def roomTypes_def recommend_room_type_def
      generatePricingData_def case_prod_beta pricing_loop_length pricing_loop_dates
      del: upt_rec_numeral)

section \<open>Buckets of more than one day\<close>

lemma week_of_monday: "group_date ''week'' 20241 = 20241" "group_date ''week'' 20242 = 20241"
  by (simp_all add: group_date_def getDay_def getDate_def setDate_def Let_def)

text \<open>
  C5 at the call \<^verbatim>\<open>generateRevenueAnalytics(1, 2025-06-02, 2, "week")\<close>, a Monday and
  the Tuesday after it: the report has one bucket, which is the entry generated for the
  Monday alone, from the six draws of its three room types.  The Tuesday finds the entry
  of its week and is passed over; no figures are generated for it, and none are added.
\<close>

theorem weekly_bucket_is_first_day_only:
  "generateRevenueAnalytics roomTypes 1 20241 2 ''week'' rnd pos
     = (\<lparr>r_hotel_id = Some 1, r_start_date = Some 20241, r_end_date = Some 20242,
          r_group_by = Some ''week'',
          analytics = [fst (new_entry (filter (\<lambda>rt. hotel_id rt = 1) roomTypes) 20241 rnd pos)]\<rparr>,
        pos + 6)"
proof -
  let ?h = "filter (\<lambda>rt. hotel_id rt = 1) roomTypes"
  have l: "length ?h = 3"
    by (simp add: roomTypes_def)
  then have ne: "?h \<noteq> []"
    by auto
  have n: "nat 2 = Suc (Suc 0)"
    by simp
  have "analytics_loop ?h 20241 ''week'' rnd 0 (Suc (Suc 0)) ([], pos)
          = ([fst (new_entry ?h 20241 rnd pos)], pos + 6)"
    using week_of_monday l by (simp add: case_prod_beta Let_def)
  then show ?thesis
    unfolding generateRevenueAnalytics_def Let_def n using ne by simp
qed

end
